theory Spec2Isabelle
  imports Main
begin

section \<open>JavaScript values\<close>

text \<open>
  Form fields, query parameters and parsed JSON are dynamically typed in the source, and
  the handlers test them with \<^verbatim>\<open>!v\<close>, \<^verbatim>\<open>v || d\<close> and \<^verbatim>\<open>typeof v\<close>.
  The values those tests can meet are modelled by one datatype. Numbers are integers
  (no value here is ever computed with); strings are lists of 8-bit characters.
\<close>

datatype jsval =
    JUndefined
  | JNull
  | JBool bool
  | JNum int
  | JStr string
  | JArr "jsval list"
  | JObj "(string \<times> jsval) list"

text \<open>\<^verbatim>\<open>Boolean(v)\<close>: the falsy values are undefined, null, false, 0 and the empty string.\<close>

fun truthy :: "jsval \<Rightarrow> bool" where
  "truthy JUndefined = False"
| "truthy JNull = False"
| "truthy (JBool b) = b"
| "truthy (JNum n) = (n \<noteq> 0)"
| "truthy (JStr s) = (s \<noteq> [])"
| "truthy (JArr xs) = True"
| "truthy (JObj kvs) = True"

fun typeof :: "jsval \<Rightarrow> string" where
  "typeof JUndefined = ''undefined''"
| "typeof JNull = ''object''"
| "typeof (JBool b) = ''boolean''"
| "typeof (JNum n) = ''number''"
| "typeof (JStr s) = ''string''"
| "typeof (JArr xs) = ''object''"
| "typeof (JObj kvs) = ''object''"

text \<open>\<^verbatim>\<open>a || b\<close> on values.\<close>

definition js_or :: "jsval \<Rightarrow> jsval \<Rightarrow> jsval" where
  "js_or a b = (if truthy a then a else b)"

text \<open>
  \<^verbatim>\<open>s || d\<close> where \<open>s\<close> is a string or undefined and \<open>d\<close> a string literal
  (\<^verbatim>\<open>req.file.originalname || "encrypted-file"\<close>).
\<close>

definition str_or :: "string option \<Rightarrow> string \<Rightarrow> string" where
  "str_or s d = (case s of None \<Rightarrow> d | Some x \<Rightarrow> if x = [] then d else x)"

text \<open>A thrown exception, with its \<^verbatim>\<open>message\<close>.\<close>

datatype js_error = JsError (message: string)

text \<open>
  \<^verbatim>\<open>String.prototype.toLowerCase\<close> on the ASCII range: the letters A to Z are
  mapped to a to z, every other character stays. JavaScript also folds the cased
  letters beyond ASCII; the model is the method on ASCII strings only, and what is
  stated below about the folding of letters is stated for ASCII strings.
\<close>

definition lower_char :: "char \<Rightarrow> char" where
  "lower_char c =
     (let n = (of_char c :: nat) in if 65 \<le> n \<and> n \<le> 90 then char_of (n + 32) else c)"

definition toLowerCase :: "string \<Rightarrow> string" where
  "toLowerCase s = map lower_char s"

text \<open>
  The method call \<^verbatim>\<open>v.toLowerCase()\<close> on a dynamically typed value: only a string
  has the method; on anything else the call throws a TypeError.
\<close>

definition call_toLowerCase :: "jsval \<Rightarrow> js_error + string" where
  "call_toLowerCase v =
     (case v of
        JStr s \<Rightarrow> Inr (toLowerCase s)
      | _ \<Rightarrow> Inl (JsError ''toLowerCase is not a function''))"

section \<open>The archive record and the runtime\<close>

text \<open>The object literal built by the upload handler (server.js, lines 130 to 139).\<close>

record archive =
  a_id :: string
  a_name :: string
  a_size :: nat
  a_mimeType :: string
  a_hash :: jsval
  a_walletAddress :: jsval
  a_storagePath :: string
  a_createdAt :: string

text \<open>
  \<^verbatim>\<open>JSON.parse\<close> and \<^verbatim>\<open>JSON.stringify\<close> belong to the JavaScript runtime, not
  to the repository: they are parameters of the model. \<open>JSON_parse\<close> returns
  \<open>None\<close> where the runtime throws a SyntaxError.
\<close>

record runtime =
  JSON_parse :: "string \<Rightarrow> jsval option"
  JSON_stringify :: "archive list \<Rightarrow> string"

section \<open>The metadata store (db.js)\<close>

text \<open>
  The part of the file system that db.js touches: the data directory is missing, or it
  exists without the backing file, or it holds the backing file with some text.
\<close>

datatype filesys = NoDir | EmptyDir | DbFile string

text \<open>
  What the operating system does with the calls of one operation: each of
  \<^verbatim>\<open>mkdirSync\<close>, \<^verbatim>\<open>writeFileSync\<close> and \<^verbatim>\<open>readFileSync\<close> may throw.
  A call that throws leaves the file system as it was.
\<close>

record io_env =
  mkdir_throws :: bool
  write_throws :: bool
  read_throws :: bool

definition existsSync_dir :: "filesys \<Rightarrow> bool" where
  "existsSync_dir fs = (fs \<noteq> NoDir)"

definition existsSync_file :: "filesys \<Rightarrow> bool" where
  "existsSync_file fs = (case fs of DbFile raw \<Rightarrow> True | _ \<Rightarrow> False)"

definition mkdirSync :: "io_env \<Rightarrow> filesys \<Rightarrow> filesys \<times> (js_error + unit)" where
  "mkdirSync io fs =
     (if mkdir_throws io then (fs, Inl (JsError ''mkdir failed''))
      else (if fs = NoDir then EmptyDir else fs, Inr ()))"

definition writeFileSync :: "io_env \<Rightarrow> filesys \<Rightarrow> string \<Rightarrow> filesys \<times> (js_error + unit)" where
  "writeFileSync io fs text =
     (if write_throws io \<or> fs = NoDir then (fs, Inl (JsError ''write failed''))
      else (DbFile text, Inr ()))"

definition readFileSync :: "io_env \<Rightarrow> filesys \<Rightarrow> js_error + string" where
  "readFileSync io fs =
     (case fs of
        DbFile raw \<Rightarrow> if read_throws io then Inl (JsError ''read failed'') else Inr raw
      | _ \<Rightarrow> Inl (JsError ''no such file''))"

text \<open>\<^verbatim>\<open>ensureDataDir\<close> (db.js, lines 8 to 12).\<close>

definition ensureDataDir :: "io_env \<Rightarrow> filesys \<Rightarrow> filesys \<times> (js_error + unit)" where
  "ensureDataDir io fs =
     (if \<not> existsSync_dir fs then mkdirSync io fs else (fs, Inr ()))"

text \<open>
  The body of the \<^verbatim>\<open>try\<close> block of \<^verbatim>\<open>loadDb\<close> (db.js, lines 16 to 27): the
  file system it leaves, and either the exception that left the block or the value it
  returned.
\<close>

definition loadDb_try :: "runtime \<Rightarrow> io_env \<Rightarrow> filesys \<Rightarrow> filesys \<times> (js_error + jsval list)" where
  "loadDb_try rt io fs =
     (case ensureDataDir io fs of
        (fs1, Inl e) \<Rightarrow> (fs1, Inl e)
      | (fs1, Inr u) \<Rightarrow>
          if \<not> existsSync_file fs1 then
            (case writeFileSync io fs1 (JSON_stringify rt []) of
               (fs2, Inl e) \<Rightarrow> (fs2, Inl e)
             | (fs2, Inr u') \<Rightarrow> (fs2, Inr []))
          else
            (case readFileSync io fs1 of
               Inl e \<Rightarrow> (fs1, Inl e)
             | Inr raw \<Rightarrow>
                 (case JSON_parse rt raw of
                    None \<Rightarrow> (fs1, Inl (JsError ''Unexpected token''))
                  | Some parsed \<Rightarrow>
                      (case parsed of
                         JArr xs \<Rightarrow> (fs1, Inr xs)
                       | _ \<Rightarrow> (fs1, Inr [])))))"

text \<open>
  The outcome of a call as its caller sees it: how the call completed (an exception, or
  the returned value), the file system afterwards, and the lines written to the console.
\<close>

record 'a outcome =
  completion :: "js_error + 'a"
  fs_after :: filesys
  logged :: "string list"

text \<open>\<^verbatim>\<open>loadDb\<close> (db.js, lines 14 to 32): the \<^verbatim>\<open>catch\<close> logs and returns \<open>[]\<close>.\<close>

definition loadDb :: "runtime \<Rightarrow> io_env \<Rightarrow> filesys \<Rightarrow> (jsval list) outcome" where
  "loadDb rt io fs =
     (case loadDb_try rt io fs of
        (fs', Inl err) \<Rightarrow>
          \<lparr>completion = Inr [], fs_after = fs', logged = [''Failed to load DB:'']\<rparr>
      | (fs', Inr parsed) \<Rightarrow>
          \<lparr>completion = Inr parsed, fs_after = fs', logged = []\<rparr>)"

text \<open>The body of the \<^verbatim>\<open>try\<close> block of \<^verbatim>\<open>saveDb\<close> (db.js, lines 36 to 37).\<close>

definition saveDb_try :: "runtime \<Rightarrow> io_env \<Rightarrow> filesys \<Rightarrow> archive list \<Rightarrow> filesys \<times> (js_error + unit)" where
  "saveDb_try rt io fs data =
     (case ensureDataDir io fs of
        (fs1, Inl e) \<Rightarrow> (fs1, Inl e)
      | (fs1, Inr u) \<Rightarrow> writeFileSync io fs1 (JSON_stringify rt data))"

text \<open>
  \<^verbatim>\<open>saveDb\<close> (db.js, lines 34 to 41): the \<^verbatim>\<open>catch\<close> logs; in both cases the
  function falls off its end and returns undefined.
\<close>

definition saveDb :: "runtime \<Rightarrow> io_env \<Rightarrow> filesys \<Rightarrow> archive list \<Rightarrow> unit outcome" where
  "saveDb rt io fs data =
     (case saveDb_try rt io fs data of
        (fs', Inl err) \<Rightarrow>
          \<lparr>completion = Inr (), fs_after = fs', logged = [''Failed to save DB:'']\<rparr>
      | (fs', Inr u) \<Rightarrow>
          \<lparr>completion = Inr (), fs_after = fs', logged = []\<rparr>)"

section \<open>The CORS gateway (server.js, lines 20 to 56 and 208 to 214)\<close>

definition defaultAllowedOrigins :: "string list" where
  "defaultAllowedOrigins =
     [''https://zkarchive.us'',
      ''https://app.zkarchive.us'',
      ''https://useodds.fun'',
      ''http://localhost:3000'',
      ''http://localhost:5173'']"

text \<open>\<^verbatim>\<open>s.split(",")\<close>: the pieces between the commas, empty pieces included.\<close>

fun split_comma :: "string \<Rightarrow> string list" where
  "split_comma [] = [[]]"
| "split_comma (c # cs) =
     (if c = CHR '','' then [] # split_comma cs
      else (case split_comma cs of
              [] \<Rightarrow> [[c]]
            | piece # pieces \<Rightarrow> (c # piece) # pieces))"

text \<open>
  \<^verbatim>\<open>s.trim()\<close> on the ASCII range: tab, line feed, vertical tab, form feed, carriage
  return and space are removed from both ends.
\<close>

definition is_space :: "char \<Rightarrow> bool" where
  "is_space c = (let n = (of_char c :: nat) in (9 \<le> n \<and> n \<le> 13) \<or> n = 32)"

definition trim :: "string \<Rightarrow> string" where
  "trim s = rev (dropWhile is_space (rev (dropWhile is_space s)))"

text \<open>
  \<^verbatim>\<open>[...new Set(xs)]\<close>: a Set keeps the first occurrence of each element, in
  insertion order. \<open>seen\<close> is what the Set already holds.
\<close>

fun set_spread :: "'a list \<Rightarrow> 'a list \<Rightarrow> 'a list" where
  "set_spread seen [] = []"
| "set_spread seen (x # xs) =
     (if x \<in> set seen then set_spread seen xs else x # set_spread (x # seen) xs)"

text \<open>
  The extra origins of \<^verbatim>\<open>process.env.CORS_ORIGINS\<close> (lines 31 to 33), and the
  allow-list as it stands after line 35. The variable is unset (\<open>None\<close>) or a string;
  the empty string is falsy and leaves the defaults alone.
\<close>

definition extra_origins :: "string \<Rightarrow> string list" where
  "extra_origins v = filter (\<lambda>piece. piece \<noteq> []) (map trim (split_comma v))"

definition allowedOrigins :: "string option \<Rightarrow> string list" where
  "allowedOrigins cors_origins =
     (case cors_origins of
        None \<Rightarrow> defaultAllowedOrigins
      | Some v \<Rightarrow>
          if v = [] then defaultAllowedOrigins
          else set_spread [] (defaultAllowedOrigins @ extra_origins v))"

text \<open>
  The \<^verbatim>\<open>origin\<close> callback (lines 39 to 51). Its argument is
  \<^verbatim>\<open>req.headers.origin\<close>: undefined (\<open>None\<close>) when the request has no Origin header,
  the header's value otherwise. \<open>Inr True\<close> is \<^verbatim>\<open>callback(null, true)\<close>, \<open>Inl e\<close>
  is \<^verbatim>\<open>callback(e)\<close>.
\<close>

definition cors_origin :: "string list \<Rightarrow> string option \<Rightarrow> js_error + bool" where
  "cors_origin allowed origin =
     (case origin of
        None \<Rightarrow> Inr True
      | Some v \<Rightarrow>
          if v = [] then Inr True
          else if v \<in> set allowed then Inr True
          else Inl (JsError ''Not allowed by CORS''))"

section \<open>Requests, responses and the server state\<close>

text \<open>The JSON bodies the handlers send.\<close>

datatype body =
    ErrorBody string
  | UploadBody bool archive
  | ItemsBody "archive list"
  | ArchiveBody archive

datatype response = Response (status: nat) (payload: body)

text \<open>The global error handler (lines 208 to 214).\<close>

definition error_handler :: "js_error \<Rightarrow> response" where
  "error_handler err =
     (if message err = ''Not allowed by CORS'' then Response 403 (ErrorBody ''CORS blocked'')
      else Response 500 (ErrorBody ''Internal server error''))"

text \<open>
  What the gateway does with a request: it lets the request through to the routes, or
  the error of the callback reaches the global error handler, whose response ends the
  request.
\<close>

datatype gate = Pass | Rejected response

definition cors_gateway :: "string list \<Rightarrow> string option \<Rightarrow> gate" where
  "cors_gateway allowed origin =
     (case cors_origin allowed origin of
        Inl err \<Rightarrow> Rejected (error_handler err)
      | Inr ok \<Rightarrow> Pass)"

text \<open>
  \<^verbatim>\<open>req.file\<close> as the upload middleware leaves it: the client's file name and the
  declared media type (strings, or undefined), the number of bytes stored, and the file
  name the storage engine generated.
\<close>

record upfile =
  originalname :: "string option"
  mimetype :: "string option"
  file_size :: nat
  filename :: string

text \<open>
  An upload request after the middleware: \<^verbatim>\<open>req.file\<close> (undefined when no file part
  came) and the two fields read from \<^verbatim>\<open>req.body\<close>. A field that was not sent is
  undefined; a field sent once is a string; a field sent several times, or with
  brackets in its name, arrives as an array or an object.
\<close>

record upload_req =
  req_file :: "upfile option"
  hash :: jsval
  walletAddress :: jsval

text \<open>
  What the environment supplies during one upload: the value \<^verbatim>\<open>uuidv4()\<close> returns,
  the value of \<^verbatim>\<open>new Date().toISOString()\<close>, and the behaviour of the file system
  during \<^verbatim>\<open>saveDb\<close>.
\<close>

record upload_env =
  uuid :: string
  now :: string
  save_io :: io_env

text \<open>
  The state of the process: the in-memory cache \<^verbatim>\<open>archives\<close>, the file system under
  the data directory, and the lines written to the console.
\<close>

record server =
  archives :: "archive list"
  disk :: filesys
  console :: "string list"

section \<open>The upload handler (server.js, lines 115 to 153)\<close>

text \<open>The object literal \<^verbatim>\<open>archive\<close> (lines 130 to 139).\<close>

definition new_archive :: "upload_env \<Rightarrow> upfile \<Rightarrow> upload_req \<Rightarrow> archive" where
  "new_archive env f req =
     \<lparr>a_id = uuid env,
      a_name = str_or (originalname f) ''encrypted-file'',
      a_size = file_size f,
      a_mimeType = str_or (mimetype f) ''application/octet-stream'',
      a_hash = hash req,
      a_walletAddress = js_or (walletAddress req) JNull,
      a_storagePath = filename f,
      a_createdAt = now env\<rparr>"

text \<open>
  The \<^verbatim>\<open>try\<close> block. A \<^verbatim>\<open>return res.status(..).json(..)\<close> is \<open>Inr\<close> of the
  response; an exception leaving the block is \<open>Inl\<close>. The state is returned in both
  cases: \<^verbatim>\<open>archives.unshift\<close> has happened before \<^verbatim>\<open>saveDb\<close> is called.
\<close>

definition upload_try :: "runtime \<Rightarrow> upload_env \<Rightarrow> upload_req \<Rightarrow> server \<Rightarrow> (js_error + response) \<times> server" where
  "upload_try rt env req s =
     (case req_file req of
        None \<Rightarrow> (Inr (Response 400 (ErrorBody ''File is required'')), s)
      | Some f \<Rightarrow>
          if \<not> truthy (hash req) \<or> typeof (hash req) \<noteq> ''string'' then
            (Inr (Response 400 (ErrorBody ''Field 'hash' is required'')), s)
          else
            let archive = new_archive env f req;
                unshifted = archive # archives s;
                saved = saveDb rt (save_io env) (disk s) unshifted;
                s' = \<lparr>archives = unshifted,
                      disk = fs_after saved,
                      console = console s @ logged saved\<rparr>
            in (case completion saved of
                  Inl err \<Rightarrow> (Inl err, s')
                | Inr u \<Rightarrow> (Inr (Response 201 (UploadBody True archive)), s')))"

definition upload_handler :: "runtime \<Rightarrow> upload_env \<Rightarrow> upload_req \<Rightarrow> server \<Rightarrow> response \<times> server" where
  "upload_handler rt env req s =
     (case upload_try rt env req s of
        (Inl err, s') \<Rightarrow>
          (Response 500 (ErrorBody ''Internal server error''),
           s'\<lparr>console := console s' @ [''Upload error:'']\<rparr>)
      | (Inr res, s') \<Rightarrow> (res, s'))"

section \<open>The query handlers (server.js, lines 160 to 197)\<close>

text \<open>
  The callback of the filter (lines 166 to 167): the left operand of \<^verbatim>\<open>===\<close> is
  evaluated first, and either method call may throw.
\<close>

definition wallet_matches :: "jsval \<Rightarrow> archive \<Rightarrow> js_error + bool" where
  "wallet_matches wallet a =
     (case call_toLowerCase (js_or (a_walletAddress a) (JStr [])) of
        Inl err \<Rightarrow> Inl err
      | Inr l \<Rightarrow>
          (case call_toLowerCase wallet of
             Inl err \<Rightarrow> Inl err
           | Inr r \<Rightarrow> Inr (l = r)))"

text \<open>
  \<^verbatim>\<open>Array.prototype.filter\<close> with a callback that may throw: the elements are visited
  in order, and the first exception ends the call.
\<close>

fun array_filter :: "('a \<Rightarrow> js_error + bool) \<Rightarrow> 'a list \<Rightarrow> js_error + 'a list" where
  "array_filter p [] = Inr []"
| "array_filter p (x # xs) =
     (case p x of
        Inl err \<Rightarrow> Inl err
      | Inr keep \<Rightarrow>
          (case array_filter p xs of
             Inl err \<Rightarrow> Inl err
           | Inr ys \<Rightarrow> Inr (if keep then x # ys else ys)))"

text \<open>
  \<^verbatim>\<open>GET /api/files\<close>. The argument is \<^verbatim>\<open>req.query.wallet\<close>: undefined when the
  parameter is not given. \<^verbatim>\<open>res.json\<close> without \<^verbatim>\<open>res.status\<close> answers 200.
\<close>

definition list_files :: "jsval \<Rightarrow> server \<Rightarrow> response \<times> server" where
  "list_files wallet s =
     (if truthy wallet then
        (case array_filter (wallet_matches wallet) (archives s) of
           Inl err \<Rightarrow>
             (Response 500 (ErrorBody ''Internal server error''),
              s\<lparr>console := console s @ [''List files error:'']\<rparr>)
         | Inr items \<Rightarrow> (Response 200 (ItemsBody items), s))
      else (Response 200 (ItemsBody (archives s)), s))"

text \<open>
  \<^verbatim>\<open>GET /api/files/:id\<close>. A route parameter is always a string;
  \<^verbatim>\<open>Array.prototype.find\<close> returns the first element that satisfies the callback.
\<close>

definition get_file :: "string \<Rightarrow> server \<Rightarrow> response \<times> server" where
  "get_file i s =
     (case find (\<lambda>a. a_id a = i) (archives s) of
        None \<Rightarrow> (Response 404 (ErrorBody ''Archive not found''), s)
      | Some archive \<Rightarrow> (Response 200 (ArchiveBody archive), s))"

section \<open>Runs of the server\<close>

datatype request =
    Upload upload_env upload_req
  | ListFiles jsval
  | GetFile string

fun handle :: "runtime \<Rightarrow> request \<Rightarrow> server \<Rightarrow> response \<times> server" where
  "handle rt (Upload env req) s = upload_handler rt env req s"
| "handle rt (ListFiles wallet) s = list_files wallet s"
| "handle rt (GetFile i) s = get_file i s"

text \<open>The requests are served one after the other; the responses come in the same order.\<close>

fun run :: "runtime \<Rightarrow> request list \<Rightarrow> server \<Rightarrow> response list \<times> server" where
  "run rt [] s = ([], s)"
| "run rt (r # rs) s =
     (case handle rt r s of
        (res, s') \<Rightarrow> (case run rt rs s' of (ress, s'') \<Rightarrow> (res # ress, s'')))"

section \<open>The spec's wording of the input conditions\<close>

text \<open>
  "A non-empty string": the condition the spec puts on the \<^verbatim>\<open>hash\<close> field. The
  handler tests \<^verbatim>\<open>!hash || typeof hash !== "string"\<close>; the two are compared in
  \<open>hash_check_iff\<close>.
\<close>

definition nonempty_string :: "jsval \<Rightarrow> bool" where
  "nonempty_string v = (case v of JStr s \<Rightarrow> s \<noteq> [] | _ \<Rightarrow> False)"

text \<open>
  "Case-insensitively equal", said without the code's \<^verbatim>\<open>toLowerCase\<close>: two
  characters are the same letter when they are equal or when one is a capital of the
  alphabet and the other the small letter at the same place; two strings are equal up
  to case when they have the same length and the same letter at each position.
\<close>

definition upper_letters :: string where
  "upper_letters = ''ABCDEFGHIJKLMNOPQRSTUVWXYZ''"

definition lower_letters :: string where
  "lower_letters = ''abcdefghijklmnopqrstuvwxyz''"

definition same_letter :: "char \<Rightarrow> char \<Rightarrow> bool" where
  "same_letter x y =
     (x = y \<or> (x, y) \<in> set (zip upper_letters lower_letters)
            \<or> (y, x) \<in> set (zip upper_letters lower_letters))"

definition equals_ignoring_case :: "string \<Rightarrow> string \<Rightarrow> bool" where
  "equals_ignoring_case a b = list_all2 same_letter a b"

text \<open>"The record's walletAddress case-insensitively equals the parameter."\<close>

definition wallet_equals :: "string \<Rightarrow> archive \<Rightarrow> bool" where
  "wallet_equals q a =
     (case a_walletAddress a of JStr w \<Rightarrow> equals_ignoring_case w q | _ \<Rightarrow> False)"

text \<open>
  "walletAddress: string or absent" (the data model of the spec), on the range where
  the model's \<open>toLowerCase\<close> is JavaScript's: the field of a stored record is null
  or a string of ASCII characters.
\<close>

definition ascii :: "string \<Rightarrow> bool" where
  "ascii s = (\<forall>c \<in> set s. (of_char c :: nat) < 128)"

definition wallet_ascii_or_absent :: "archive \<Rightarrow> bool" where
  "wallet_ascii_or_absent a =
     (case a_walletAddress a of JNull \<Rightarrow> True | JStr w \<Rightarrow> ascii w | _ \<Rightarrow> False)"



text \<open>"The configured extras": the origins read from the environment, none when it is unset.\<close>

definition configured_extras :: "string option \<Rightarrow> string list" where
  "configured_extras cors_origins =
     (case cors_origins of None \<Rightarrow> [] | Some v \<Rightarrow> extra_origins v)"

section \<open>Example inputs\<close>

text \<open>
  Concrete requests and states on which the theorems below are instantiated: a file
  system that works and one whose writes fail, a runtime that parses two texts, the
  upload of the spec's example scenario (\<^verbatim>\<open>note.txt\<close>, 10 bytes, hash
  \<^verbatim>\<open>abc123\<close>, no wallet), an upload whose wallet field was sent twice, and a store of two records.
\<close>

definition io_ok :: io_env where
  "io_ok = \<lparr>mkdir_throws = False, write_throws = False, read_throws = False\<rparr>"

definition io_disk_full :: io_env where
  "io_disk_full = \<lparr>mkdir_throws = False, write_throws = True, read_throws = False\<rparr>"

definition toy_runtime :: runtime where
  "toy_runtime =
     \<lparr>JSON_parse = (\<lambda>raw. if raw = ''[]'' then Some (JArr [])
                          else if raw = ''{}'' then Some (JObj [])
                          else None),
      JSON_stringify = (\<lambda>data. if data = [] then ''[]'' else ''[...]'')\<rparr>"

definition note_txt :: upfile where
  "note_txt =
     \<lparr>originalname = Some ''note.txt'', mimetype = Some ''text/plain'',
      file_size = 10, filename = ''5f0c.txt''\<rparr>"

definition blob :: upfile where
  "blob = \<lparr>originalname = None, mimetype = None, file_size = 3, filename = ''77aa''\<rparr>"

definition first_env :: upload_env where
  "first_env = \<lparr>uuid = ''id-1'', now = ''2026-01-01T00:00:00.000Z'', save_io = io_ok\<rparr>"

definition second_env :: upload_env where
  "second_env =
     \<lparr>uuid = ''id-2'', now = ''2026-01-02T00:00:00.000Z'', save_io = io_disk_full\<rparr>"

definition note_upload :: upload_req where
  "note_upload =
     \<lparr>req_file = Some note_txt, hash = JStr ''abc123'', walletAddress = JUndefined\<rparr>"

definition wallet_upload :: upload_req where
  "wallet_upload =
     \<lparr>req_file = Some blob, hash = JStr ''h2'', walletAddress = JStr ''0xAbC''\<rparr>"

definition no_hash_upload :: upload_req where
  "no_hash_upload =
     \<lparr>req_file = Some note_txt, hash = JUndefined, walletAddress = JUndefined\<rparr>"

definition two_hashes_upload :: upload_req where
  "two_hashes_upload =
     \<lparr>req_file = Some note_txt, hash = JArr [JStr ''a'', JStr ''b''],
      walletAddress = JUndefined\<rparr>"

definition fresh_server :: server where
  "fresh_server = \<lparr>archives = [], disk = NoDir, console = []\<rparr>"

definition note_record :: archive where
  "note_record = new_archive first_env note_txt note_upload"

definition wallet_record :: archive where
  "wallet_record = new_archive second_env blob wallet_upload"

definition two_records :: server where
  "two_records =
     \<lparr>archives = [wallet_record, note_record], disk = DbFile ''[...]'', console = []\<rparr>"

definition empty_wallet_upload :: upload_req where
  "empty_wallet_upload =
     \<lparr>req_file = Some note_txt, hash = JStr ''abc123'', walletAddress = JStr []\<rparr>"

definition twice_wallet_upload :: upload_req where
  "twice_wallet_upload =
     \<lparr>req_file = Some note_txt, hash = JStr ''h3'',
      walletAddress = JArr [JStr ''0xdef'', JStr ''0xdef'']\<rparr>"

section \<open>Properties of the metadata store\<close>

lemma hash_check_iff:
  "(\<not> truthy v \<or> typeof v \<noteq> ''string'') = (\<not> nonempty_string v)"
  by (cases v) (auto simp: nonempty_string_def)

lemma saveDb_completion: "completion (saveDb rt io fs data) = Inr ()"
  by (simp add: saveDb_def split: prod.splits sum.splits)

text \<open>
  C7. \<^verbatim>\<open>saveDb\<close> never throws to its caller. Whatever the record sequence, the file
  system and the outcome of \<^verbatim>\<open>mkdirSync\<close> and \<^verbatim>\<open>writeFileSync\<close>, the call
  completes normally and returns undefined, so the caller sees the same completion after
  a failed save as after a successful one. A failure shows only on the console: exactly
  when the directory could not be made or the write threw, one line is logged, and the
  backing file does not hold the serialised sequence.
\<close>

theorem saveDb_never_throws:
  "completion (saveDb rt io fs data) = Inr () \<and>
   logged (saveDb rt io fs data) =
     (if (fs = NoDir \<and> mkdir_throws io) \<or> write_throws io
      then [''Failed to save DB:''] else []) \<and>
   fs_after (saveDb rt io fs data) =
     (if (fs = NoDir \<and> mkdir_throws io) \<or> write_throws io
      then (if fs = NoDir \<and> \<not> mkdir_throws io then EmptyDir else fs)
      else DbFile (JSON_stringify rt data))"
  by (auto simp: saveDb_def saveDb_try_def ensureDataDir_def mkdirSync_def writeFileSync_def
      existsSync_dir_def split: prod.splits sum.splits if_splits)

text \<open>
  C6. \<^verbatim>\<open>loadDb\<close> always returns a sequence, whatever the backing file holds and
  whatever the file system does: no exception reaches the caller. When the backing
  file is absent the result is the empty sequence, and if the directory can be made
  and the write goes through, the file is created holding the serialised empty
  sequence. When the file's text does not parse, or parses to a value that is not an
  array, the result is the empty sequence and the file is left as it is. A text that
  parses to an array is returned as that array.
\<close>

theorem loadDb_returns_sequence:
  "(\<exists>xs. completion (loadDb rt io fs) = Inr xs) \<and>
   (\<not> existsSync_file fs \<longrightarrow> completion (loadDb rt io fs) = Inr []) \<and>
   (\<not> existsSync_file fs \<and> \<not> mkdir_throws io \<and> \<not> write_throws io \<longrightarrow>
      fs_after (loadDb rt io fs) = DbFile (JSON_stringify rt [])) \<and>
   (\<forall>raw. fs = DbFile raw \<and> JSON_parse rt raw = None \<longrightarrow>
      completion (loadDb rt io fs) = Inr [] \<and> fs_after (loadDb rt io fs) = fs) \<and>
   (\<forall>raw v. fs = DbFile raw \<and> JSON_parse rt raw = Some v \<and> (\<forall>xs. v \<noteq> JArr xs) \<longrightarrow>
      completion (loadDb rt io fs) = Inr [] \<and> fs_after (loadDb rt io fs) = fs) \<and>
   (\<forall>raw xs. fs = DbFile raw \<and> \<not> read_throws io \<and> JSON_parse rt raw = Some (JArr xs) \<longrightarrow>
      completion (loadDb rt io fs) = Inr xs \<and> fs_after (loadDb rt io fs) = fs)"
proof -
  have returns: "\<exists>xs. completion (loadDb rt io fs) = Inr xs"
    by (simp add: loadDb_def split: prod.splits sum.splits)
  have absent: "completion (loadDb rt io fs) = Inr []" if "\<not> existsSync_file fs"
    using that
    by (cases fs)
      (auto simp: loadDb_def loadDb_try_def ensureDataDir_def mkdirSync_def writeFileSync_def
        existsSync_dir_def existsSync_file_def split: prod.splits sum.splits if_splits)
  have created: "fs_after (loadDb rt io fs) = DbFile (JSON_stringify rt [])"
    if "\<not> existsSync_file fs" "\<not> mkdir_throws io" "\<not> write_throws io"
    using that
    by (cases fs)
      (auto simp: loadDb_def loadDb_try_def ensureDataDir_def mkdirSync_def writeFileSync_def
        existsSync_dir_def existsSync_file_def split: prod.splits sum.splits if_splits)
  have unparsable: "completion (loadDb rt io fs) = Inr [] \<and> fs_after (loadDb rt io fs) = fs"
    if "fs = DbFile raw" "JSON_parse rt raw = None" for raw
    using that
    by (auto simp: loadDb_def loadDb_try_def ensureDataDir_def readFileSync_def
        existsSync_dir_def existsSync_file_def split: prod.splits sum.splits if_splits)
  have not_array: "completion (loadDb rt io fs) = Inr [] \<and> fs_after (loadDb rt io fs) = fs"
    if "fs = DbFile raw" "JSON_parse rt raw = Some v" "\<forall>xs. v \<noteq> JArr xs" for raw v
    using that
    by (cases v)
      (auto simp: loadDb_def loadDb_try_def ensureDataDir_def readFileSync_def
        existsSync_dir_def existsSync_file_def split: prod.splits sum.splits if_splits)
  have array: "completion (loadDb rt io fs) = Inr xs \<and> fs_after (loadDb rt io fs) = fs"
    if "fs = DbFile raw" "\<not> read_throws io" "JSON_parse rt raw = Some (JArr xs)" for raw xs
    using that
    by (auto simp: loadDb_def loadDb_try_def ensureDataDir_def readFileSync_def
        existsSync_dir_def existsSync_file_def split: prod.splits sum.splits if_splits)
  from returns absent created unparsable not_array array show ?thesis by blast
qed

theorem loadDb_returns_sequence_witness:
  "completion (loadDb toy_runtime io_ok NoDir) = Inr [] \<and>
   fs_after (loadDb toy_runtime io_ok NoDir) = DbFile ''[]'' \<and>
   completion (loadDb toy_runtime io_disk_full EmptyDir) = Inr [] \<and>
   completion (loadDb toy_runtime io_ok (DbFile ''oops'')) = Inr [] \<and>
   completion (loadDb toy_runtime io_ok (DbFile ''{}'')) = Inr [] \<and>
   completion (loadDb toy_runtime io_ok (DbFile ''[]'')) = Inr []"
  using loadDb_returns_sequence [of toy_runtime io_ok NoDir]
    loadDb_returns_sequence [of toy_runtime io_disk_full EmptyDir]
    loadDb_returns_sequence [of toy_runtime io_ok "DbFile ''oops''"]
    loadDb_returns_sequence [of toy_runtime io_ok "DbFile ''{}''"]
    loadDb_returns_sequence [of toy_runtime io_ok "DbFile ''[]''"]
  by (simp add: toy_runtime_def io_ok_def io_disk_full_def existsSync_file_def)

section \<open>Properties of the upload handler\<close>

lemma upload_handler_accepted:
  assumes "req_file req = Some f" and "nonempty_string (hash req)"
  shows "upload_handler rt env req s =
     (Response 201 (UploadBody True (new_archive env f req)),
      \<lparr>archives = new_archive env f req # archives s,
       disk = fs_after (saveDb rt (save_io env) (disk s) (new_archive env f req # archives s)),
       console = console s @
         logged (saveDb rt (save_io env) (disk s) (new_archive env f req # archives s))\<rparr>)"
  using assms hash_check_iff [of "hash req"]
  by (simp add: upload_handler_def upload_try_def Let_def saveDb_completion)

lemma upload_handler_rejected:
  assumes "req_file req = None \<or> \<not> nonempty_string (hash req)"
  shows "upload_handler rt env req s =
     (Response 400 (ErrorBody (if req_file req = None then ''File is required''
                               else ''Field 'hash' is required'')), s)"
  using assms hash_check_iff [of "hash req"]
  by (auto simp: upload_handler_def upload_try_def split: option.splits)

lemma upload_handler_result:
  "upload_handler rt env req s =
     (case req_file req of
        None \<Rightarrow> (Response 400 (ErrorBody ''File is required''), s)
      | Some f \<Rightarrow>
          if nonempty_string (hash req) then
            (Response 201 (UploadBody True (new_archive env f req)),
             \<lparr>archives = new_archive env f req # archives s,
              disk = fs_after (saveDb rt (save_io env) (disk s)
                (new_archive env f req # archives s)),
              console = console s @
                logged (saveDb rt (save_io env) (disk s)
                  (new_archive env f req # archives s))\<rparr>)
          else (Response 400 (ErrorBody ''Field 'hash' is required''), s))"
proof (cases "req_file req")
  case None
  then show ?thesis using upload_handler_rejected [of req rt env s] by simp
next
  case (Some f)
  then show ?thesis
    using upload_handler_rejected [of req rt env s] upload_handler_accepted [of req f rt env s]
    by simp
qed


lemma upload_handler_201:
  assumes "upload_handler rt env req s = (res, s')" and "status res = 201"
  shows "\<exists>a. res = Response 201 (UploadBody True a) \<and> archives s' = a # archives s"
  using assms by (auto simp: upload_handler_result split: option.splits if_splits)

text \<open>
  C1. An upload request that carries a file and whose \<^verbatim>\<open>hash\<close> field is a
  non-empty string is answered 201 with \<^verbatim>\<open>{success: true, archive}\<close>, and the
  record is put at the head of the store. Its name is the client's file name, or the
  placeholder when that name is undefined or empty; its size is the stored file's size;
  its mimeType is the declared type, or the generic binary type when that is undefined
  or empty; its hash is the hash supplied; its walletAddress is null when the field is
  absent; its storagePath is the file name the storage engine generated.
\<close>

theorem upload_creates_record:
  assumes "req_file req = Some f" and "nonempty_string (hash req)"
  shows "\<exists>a s'. upload_handler rt env req s = (Response 201 (UploadBody True a), s') \<and>
           archives s' = a # archives s \<and>
           a_name a = (case originalname f of
                         None \<Rightarrow> ''encrypted-file''
                       | Some n \<Rightarrow> if n = [] then ''encrypted-file'' else n) \<and>
           a_size a = file_size f \<and>
           a_mimeType a = (case mimetype f of
                             None \<Rightarrow> ''application/octet-stream''
                           | Some m \<Rightarrow> if m = [] then ''application/octet-stream'' else m) \<and>
           a_hash a = hash req \<and>
           (walletAddress req = JUndefined \<longrightarrow> a_walletAddress a = JNull) \<and>
           a_storagePath a = filename f"
  using upload_handler_accepted [OF assms, of rt env s]
  by (simp add: new_archive_def str_or_def js_or_def)

theorem upload_creates_record_witness:
  "\<exists>a s'. upload_handler toy_runtime first_env note_upload fresh_server =
             (Response 201 (UploadBody True a), s') \<and>
           archives s' = [a] \<and> a_name a = ''note.txt'' \<and> a_size a = 10 \<and>
           a_mimeType a = ''text/plain'' \<and> a_hash a = JStr ''abc123'' \<and>
           a_walletAddress a = JNull \<and> a_storagePath a = ''5f0c.txt''"
  using upload_creates_record [of note_upload note_txt toy_runtime first_env fresh_server]
  by (simp add: note_upload_def note_txt_def fresh_server_def nonempty_string_def)

text \<open>
  C5. An upload request without a file, or whose \<^verbatim>\<open>hash\<close> field is missing or is
  not a non-empty string, is answered 400, and the handler returns the state it was
  given: no record is created, the record sequence and its length are what they were,
  and nothing is written to disk.
\<close>

theorem upload_rejects_bad_request:
  assumes "req_file req = None \<or> \<not> nonempty_string (hash req)"
  shows "status (fst (upload_handler rt env req s)) = 400 \<and>
         snd (upload_handler rt env req s) = s \<and>
         length (archives (snd (upload_handler rt env req s))) = length (archives s)"
  using upload_handler_rejected [OF assms, of rt env s] by simp

theorem upload_rejects_bad_request_witness:
  "status (fst (upload_handler toy_runtime first_env no_hash_upload two_records)) = 400 \<and>
   snd (upload_handler toy_runtime first_env no_hash_upload two_records) = two_records \<and>
   status (fst (upload_handler toy_runtime first_env two_hashes_upload two_records)) = 400 \<and>
   snd (upload_handler toy_runtime first_env two_hashes_upload two_records) = two_records"
  using upload_rejects_bad_request [of no_hash_upload toy_runtime first_env two_records]
    upload_rejects_bad_request [of two_hashes_upload toy_runtime first_env two_records]
  by (simp add: no_hash_upload_def two_hashes_upload_def nonempty_string_def)

section \<open>Properties of the query handlers\<close>

lemma find_first_match:
  "\<forall>b \<in> set pre. \<not> P b \<Longrightarrow> P a \<Longrightarrow> find P (pre @ a # post) = Some a"
  by (induction pre) auto

text \<open>
  C4. \<^verbatim>\<open>GET /api/files/:id\<close> leaves the state as it is. When no record of the store
  has the id, the answer is 404 with an error body. When some record has it, the answer
  is 200 with a record of the store that has exactly that id: the first one in the
  sequence.
\<close>

theorem get_file_by_id:
  "snd (get_file i s) = s \<and>
   ((\<forall>a \<in> set (archives s). a_id a \<noteq> i) \<longrightarrow>
      fst (get_file i s) = Response 404 (ErrorBody ''Archive not found'')) \<and>
   ((\<exists>a \<in> set (archives s). a_id a = i) \<longrightarrow>
      (\<exists>a \<in> set (archives s). a_id a = i \<and> fst (get_file i s) = Response 200 (ArchiveBody a))) \<and>
   (\<forall>pre a post. archives s = pre @ a # post \<and> a_id a = i \<and> (\<forall>b \<in> set pre. a_id b \<noteq> i) \<longrightarrow>
      fst (get_file i s) = Response 200 (ArchiveBody a))"
proof -
  have unchanged: "snd (get_file i s) = s"
    by (simp add: get_file_def split: option.splits)
  have absent: "fst (get_file i s) = Response 404 (ErrorBody ''Archive not found'')"
    if "\<forall>a \<in> set (archives s). a_id a \<noteq> i"
  proof -
    from that have "find (\<lambda>a. a_id a = i) (archives s) = None"
      by (simp add: find_None_iff)
    then show ?thesis by (simp add: get_file_def)
  qed
  have first: "fst (get_file i s) = Response 200 (ArchiveBody a)"
    if "archives s = pre @ a # post" "a_id a = i" "\<forall>b \<in> set pre. a_id b \<noteq> i" for pre a post
  proof -
    from that have "find (\<lambda>a. a_id a = i) (archives s) = Some a"
      by (simp add: find_first_match)
    then show ?thesis by (simp add: get_file_def)
  qed
  have present: "\<exists>a \<in> set (archives s). a_id a = i \<and> fst (get_file i s) = Response 200 (ArchiveBody a)"
    if "\<exists>a \<in> set (archives s). a_id a = i"
  proof -
    from that obtain a where "find (\<lambda>a. a_id a = i) (archives s) = Some a"
      by (cases "find (\<lambda>a. a_id a = i) (archives s)") (auto simp: find_None_iff)
    moreover from this have "a \<in> set (archives s)" "a_id a = i"
      by (auto simp: find_Some_iff)
    ultimately show ?thesis by (auto simp: get_file_def)
  qed
  from unchanged absent first present show ?thesis by blast
qed

theorem get_file_by_id_witness:
  "fst (get_file ''id-1'' two_records) = Response 200 (ArchiveBody note_record) \<and>
   fst (get_file ''id-3'' two_records) = Response 404 (ErrorBody ''Archive not found'') \<and>
   snd (get_file ''id-1'' two_records) = two_records \<and>
   snd (get_file ''id-3'' two_records) = two_records"
  using get_file_by_id [of "''id-1''" two_records] get_file_by_id [of "''id-3''" two_records]
  by (simp add: two_records_def wallet_record_def note_record_def new_archive_def
      first_env_def second_env_def)

lemma lower_char_upper_letters: "map lower_char upper_letters = lower_letters"
  unfolding upper_letters_def lower_letters_def by code_simp

lemma lower_char_lower_letters: "map lower_char lower_letters = lower_letters"
  unfolding lower_letters_def by code_simp

lemma of_char_upper_letters: "map of_char upper_letters = [65..<(91::nat)]"
  unfolding upper_letters_def by code_simp

lemma upper_letters_iff:
  "(c \<in> set upper_letters) = (65 \<le> (of_char c :: nat) \<and> (of_char c :: nat) \<le> 90)"
proof -
  have "(c \<in> set upper_letters) = ((of_char c :: nat) \<in> of_char ` set upper_letters)"
    by (auto simp: inj_of_char [THEN inj_image_mem_iff])
  also have "of_char ` set upper_letters = set (map of_char upper_letters :: nat list)"
    by simp
  also have "\<dots> = {65..<91}"
    unfolding of_char_upper_letters by (simp only: set_upt)
  finally show ?thesis by auto
qed

lemma zip_letters: "zip upper_letters lower_letters = map (\<lambda>c. (c, lower_char c)) upper_letters"
  unfolding lower_char_upper_letters [symmetric] by (simp add: zip_map2 zip_same_conv_map)

lemma lower_char_of_upper:
  "c \<in> set upper_letters \<Longrightarrow> (c, lower_char c) \<in> set (zip upper_letters lower_letters)"
  unfolding zip_letters by auto

lemma lower_char_other: "c \<notin> set upper_letters \<Longrightarrow> lower_char c = c"
  by (auto simp: upper_letters_iff lower_char_def Let_def)

lemma lower_letters_fixed: "y \<in> set lower_letters \<Longrightarrow> lower_char y = y"
  using lower_char_lower_letters by (metis map_eq_conv map_ident)

lemma zip_letters_D:
  assumes "(x, y) \<in> set (zip upper_letters lower_letters)"
  shows "y = lower_char x" and "lower_char y = y"
proof -
  from assms show "y = lower_char x" unfolding zip_letters by auto
  from assms have "y \<in> set lower_letters" by (rule set_zip_rightD)
  then show "lower_char y = y" by (rule lower_letters_fixed)
qed

text \<open>
  The code's comparison and the spec's wording agree on characters: two characters
  have the same \<open>lower_char\<close> exactly when they are the same letter.
\<close>

lemma lower_char_eq_iff: "(lower_char x = lower_char y) = same_letter x y"
proof
  assume eq: "lower_char x = lower_char y"
  show "same_letter x y"
  proof (cases "x \<in> set upper_letters")
    case xu: True
    show ?thesis
    proof (cases "y \<in> set upper_letters")
      case True
      from lower_char_of_upper [OF xu] lower_char_of_upper [OF True] eq
      have "(x, lower_char x) \<in> set (zip upper_letters lower_letters)"
        "(y, lower_char x) \<in> set (zip upper_letters lower_letters)" by simp_all
      moreover have "distinct lower_letters" unfolding lower_letters_def by simp
      moreover have "length upper_letters = length lower_letters"
        unfolding upper_letters_def lower_letters_def by simp
      ultimately have "x = y"
        by (metis distinct_conv_nth in_set_zip fst_conv snd_conv)
      then show ?thesis by (simp add: same_letter_def)
    next
      case False
      with eq lower_char_of_upper [OF xu] show ?thesis
        by (simp add: same_letter_def lower_char_other)
    qed
  next
    case xn: False
    show ?thesis
    proof (cases "y \<in> set upper_letters")
      case True
      with eq xn lower_char_of_upper [OF True] show ?thesis
        by (simp add: same_letter_def lower_char_other)
    next
      case False
      with eq xn show ?thesis by (simp add: same_letter_def lower_char_other)
    qed
  qed
next
  assume "same_letter x y"
  then consider "x = y" | "(x, y) \<in> set (zip upper_letters lower_letters)"
    | "(y, x) \<in> set (zip upper_letters lower_letters)"
    by (auto simp: same_letter_def)
  then show "lower_char x = lower_char y"
  proof cases
    case 1
    then show ?thesis by simp
  next
    case 2
    from zip_letters_D [OF this] show ?thesis by simp
  next
    case 3
    from zip_letters_D [OF this] show ?thesis by simp
  qed
qed

lemma toLowerCase_eq_iff: "(toLowerCase a = toLowerCase b) = equals_ignoring_case a b"
  unfolding toLowerCase_def equals_ignoring_case_def
proof (induction a arbitrary: b)
  case Nil
  then show ?case by auto
next
  case (Cons x xs)
  then show ?case by (cases b) (auto simp: lower_char_eq_iff)
qed

lemma toLowerCase_examples:
  "toLowerCase ''0xAbC'' = ''0xabc''"
  "toLowerCase ''0xabc'' = ''0xabc''"
  "toLowerCase [] = []"
  by code_simp+

lemma wallet_matches_typed:
  assumes "wallet_ascii_or_absent a" and "q \<noteq> []"
  shows "wallet_matches (JStr q) a = Inr (wallet_equals q a)"
proof (cases "a_walletAddress a")
  case JNull
  with assms show ?thesis
    by (simp add: wallet_matches_def wallet_equals_def js_or_def call_toLowerCase_def
        toLowerCase_def)
next
  case (JStr w)
  with assms show ?thesis
    by (cases "w = []")
      (auto simp: wallet_matches_def wallet_equals_def js_or_def call_toLowerCase_def
        toLowerCase_eq_iff equals_ignoring_case_def)
qed (use assms in \<open>simp_all add: wallet_ascii_or_absent_def\<close>)

lemma array_filter_total:
  "\<forall>x \<in> set xs. p x = Inr (keep x) \<Longrightarrow> array_filter p xs = Inr (filter keep xs)"
  by (induction xs) auto

lemma array_filter_kept:
  "array_filter p xs = Inr ys \<Longrightarrow> x \<in> set ys \<Longrightarrow> p x = Inr True"
proof (induction xs arbitrary: ys)
  case Nil
  then show ?case by simp
next
  case (Cons z zs)
  then show ?case by (auto split: sum.splits if_splits)
qed

text \<open>
  What the filter does where the stored records are as the data model has them. On a
  store whose records have a walletAddress that is null or an ASCII string, and for a
  wallet parameter that is a non-empty ASCII string, the listing is answered 200 with
  exactly the records whose walletAddress is a string equal to the parameter up to
  case, in the order of the store; a record without a walletAddress is not among them.
\<close>

lemma list_files_on_string_wallets:
  assumes "\<forall>a \<in> set (archives s). wallet_ascii_or_absent a" and "q \<noteq> []" and "ascii q"
  shows "list_files (JStr q) s =
           (Response 200 (ItemsBody (filter (wallet_equals q) (archives s))), s)"
proof -
  from assms have "\<forall>a \<in> set (archives s). wallet_matches (JStr q) a = Inr (wallet_equals q a)"
    by (simp add: wallet_matches_typed)
  then have "array_filter (wallet_matches (JStr q)) (archives s) =
      Inr (filter (wallet_equals q) (archives s))"
    by (rule array_filter_total)
  with \<open>q \<noteq> []\<close> show ?thesis
    by (simp add: list_files_def)
qed

text \<open>
  The callback of the filter throws on a record whose walletAddress is truthy and not a
  string: when such a record is the first of the store, every filtered listing is
  answered 500.
\<close>

lemma list_files_non_string_wallet:
  assumes "archives s = a # rest" and "truthy (a_walletAddress a)"
    and "typeof (a_walletAddress a) \<noteq> ''string''" and "truthy wallet"
  shows "fst (list_files wallet s) = Response 500 (ErrorBody ''Internal server error'')"
  using assms
  by (cases "a_walletAddress a")
    (simp_all add: list_files_def wallet_matches_def js_or_def call_toLowerCase_def)

text \<open>
  C3. The claim: for every stored sequence of records and every non-empty wallet
  parameter, the listing is exactly the records whose walletAddress equals the parameter
  up to case. The code breaks it on a store it has built itself. The upload handler
  tests \<^verbatim>\<open>typeof hash\<close> but not \<^verbatim>\<open>typeof walletAddress\<close>, so an upload whose
  \<^verbatim>\<open>walletAddress\<close> field was sent twice is answered 201 and its record is stored with
  an array as walletAddress. Before that upload the listing filtered by
  \<^verbatim>\<open>0xabc\<close> is the one record whose walletAddress is \<^verbatim>\<open>0xAbC\<close>; after it the
  callback of the filter throws on the new record, and the same listing is answered 500
  with no items, although the matching record is still in the store. The wallet
  parameter is not type-checked either: sent twice it arrives as an array, and the
  listing of the one-record store is answered 500.
\<close>

theorem wallet_array_breaks_listing:
  "fst (list_files (JStr ''0xabc'')
         (snd (run toy_runtime [Upload first_env wallet_upload] fresh_server))) =
     Response 200 (ItemsBody [new_archive first_env blob wallet_upload]) \<and>
   map status (fst (run toy_runtime
     [Upload first_env wallet_upload, Upload second_env twice_wallet_upload] fresh_server)) =
     [201, 201] \<and>
   map a_walletAddress (archives (snd (run toy_runtime
     [Upload first_env wallet_upload, Upload second_env twice_wallet_upload] fresh_server))) =
     [JArr [JStr ''0xdef'', JStr ''0xdef''], JStr ''0xAbC''] \<and>
   fst (list_files (JStr ''0xabc'')
         (snd (run toy_runtime
           [Upload first_env wallet_upload, Upload second_env twice_wallet_upload]
           fresh_server))) =
     Response 500 (ErrorBody ''Internal server error'') \<and>
   fst (list_files (JArr [JStr ''0xabc'', JStr ''0xabc''])
         (snd (run toy_runtime [Upload first_env wallet_upload] fresh_server))) =
     Response 500 (ErrorBody ''Internal server error'')"
  by (simp add: wallet_upload_def twice_wallet_upload_def blob_def note_txt_def new_archive_def
      first_env_def second_env_def fresh_server_def nonempty_string_def str_or_def js_or_def
      upload_handler_result list_files_def wallet_matches_def call_toLowerCase_def
      toLowerCase_examples)

lemma null_wallet_never_listed:
  assumes "a_walletAddress a = JNull" and "truthy wallet"
    and "fst (list_files wallet t) = Response 200 (ItemsBody items)"
  shows "a \<notin> set items"
proof
  assume "a \<in> set items"
  from assms(2,3) have "array_filter (wallet_matches wallet) (archives t) = Inr items"
    by (auto simp: list_files_def split: sum.splits)
  from array_filter_kept [OF this \<open>a \<in> set items\<close>]
  have "wallet_matches wallet a = Inr True" .
  with assms(1,2) show False
    by (cases wallet)
      (simp_all add: wallet_matches_def js_or_def call_toLowerCase_def toLowerCase_def)
qed

lemma new_archive_falsy_wallet:
  "\<not> truthy (walletAddress req) \<Longrightarrow>
   new_archive env f (req\<lparr>walletAddress := JUndefined\<rparr>) = new_archive env f req"
  by (simp add: new_archive_def js_or_def)

lemma upload_handler_falsy_wallet:
  assumes "\<not> truthy (walletAddress req)"
  shows "upload_handler rt env (req\<lparr>walletAddress := JUndefined\<rparr>) s =
         upload_handler rt env req s"
  using new_archive_falsy_wallet [OF assms]
  by (simp add: upload_handler_def upload_try_def Let_def split: option.splits)

text \<open>
  C10. When the \<^verbatim>\<open>walletAddress\<close> field of a successful upload is falsy (the empty
  string, or any other falsy value), the handler does exactly what it does when the
  field is absent: same response, same state. The walletAddress of the created record
  is null, and that record is in no list that a request with a non-empty (truthy)
  wallet filter is answered with.
\<close>

theorem falsy_wallet_stored_as_null:
  assumes "req_file req = Some f" and "nonempty_string (hash req)"
    and "\<not> truthy (walletAddress req)"
  shows "upload_handler rt env req s =
           upload_handler rt env (req\<lparr>walletAddress := JUndefined\<rparr>) s \<and>
         (\<exists>a s'. upload_handler rt env req s = (Response 201 (UploadBody True a), s') \<and>
            a_walletAddress a = JNull \<and>
            (\<forall>wallet t items.
               truthy wallet \<and> fst (list_files wallet t) = Response 200 (ItemsBody items)
               \<longrightarrow> a \<notin> set items))"
proof -
  have null: "a_walletAddress (new_archive env f req) = JNull"
    using assms(3) by (simp add: new_archive_def js_or_def)
  have "\<forall>wallet t items.
      truthy wallet \<and> fst (list_files wallet t) = Response 200 (ItemsBody items)
      \<longrightarrow> new_archive env f req \<notin> set items"
    using null_wallet_never_listed [OF null] by blast
  with null upload_handler_accepted [OF assms(1,2), of rt env s]
    upload_handler_falsy_wallet [OF assms(3), of rt env s]
  show ?thesis by simp
qed

theorem falsy_wallet_stored_as_null_witness:
  "upload_handler toy_runtime first_env empty_wallet_upload fresh_server =
     upload_handler toy_runtime first_env note_upload fresh_server \<and>
   fst (upload_handler toy_runtime first_env empty_wallet_upload fresh_server) =
     Response 201 (UploadBody True note_record) \<and>
   a_walletAddress note_record = JNull \<and>
   fst (list_files (JStr ''0xabc'')
         (snd (upload_handler toy_runtime first_env empty_wallet_upload fresh_server))) =
     Response 200 (ItemsBody [])"
  using falsy_wallet_stored_as_null
    [of empty_wallet_upload note_txt toy_runtime first_env fresh_server]
  by (simp add: empty_wallet_upload_def note_upload_def note_record_def new_archive_def
      js_or_def nonempty_string_def fresh_server_def upload_handler_result list_files_def
      wallet_matches_def call_toLowerCase_def toLowerCase_examples)

section \<open>Properties of runs\<close>

lemma run_uploads:
  assumes "run rt (map (\<lambda>(env, req). Upload env req) ups) s = (ress, s')"
    and "\<forall>res \<in> set ress. status res = 201"
  shows "\<exists>items. ress = map (\<lambda>a. Response 201 (UploadBody True a)) items \<and>
           archives s' = rev items @ archives s \<and> length items = length ups"
  using assms
proof (induction ups arbitrary: s ress)
  case Nil
  then show ?case by simp
next
  case (Cons u ups)
  obtain env req where u: "u = (env, req)" by (cases u)
  obtain res s1 where step: "upload_handler rt env req s = (res, s1)"
    by (cases "upload_handler rt env req s")
  obtain ress1 where rest: "run rt (map (\<lambda>(env, req). Upload env req) ups) s1 = (ress1, s')"
    and ress: "ress = res # ress1"
    using Cons.prems(1) u step
    by (cases "run rt (map (\<lambda>(env, req). Upload env req) ups) s1") auto
  from Cons.prems(2) ress have ok: "status res = 201" and oks: "\<forall>r \<in> set ress1. status r = 201"
    by auto
  from upload_handler_201 [OF step ok]
  obtain a where a: "res = Response 201 (UploadBody True a)" "archives s1 = a # archives s"
    by blast
  from Cons.IH [OF rest oks]
  obtain items where items: "ress1 = map (\<lambda>a. Response 201 (UploadBody True a)) items"
    "archives s' = rev items @ archives s1" "length items = length ups"
    by blast
  have "ress = map (\<lambda>a. Response 201 (UploadBody True a)) (a # items) \<and>
      archives s' = rev (a # items) @ archives s \<and> length (a # items) = length (u # ups)"
    using a items ress by simp
  then show ?case by blast
qed

text \<open>
  C2. Start from an empty store and serve \<open>N\<close> upload requests, each answered 201.
  A listing without a wallet filter then answers 200 with exactly \<open>N\<close> records, and
  they are the records of the \<open>N\<close> responses in reverse order: the newest first.
\<close>

theorem list_after_uploads:
  assumes "archives s = []"
    and "run rt (map (\<lambda>(env, req). Upload env req) ups) s = (ress, s')"
    and "\<forall>res \<in> set ress. status res = 201"
  shows "\<exists>items. list_files JUndefined s' = (Response 200 (ItemsBody items), s') \<and>
           length items = length ups \<and>
           ress = map (\<lambda>a. Response 201 (UploadBody True a)) (rev items)"
proof -
  from run_uploads [OF assms(2,3)] assms(1)
  obtain created where c: "ress = map (\<lambda>a. Response 201 (UploadBody True a)) created"
    "archives s' = rev created" "length created = length ups"
    by auto
  have "list_files JUndefined s' = (Response 200 (ItemsBody (rev created)), s')"
    using c(2) by (simp add: list_files_def)
  with c show ?thesis by simp
qed

theorem list_after_uploads_witness:
  "run toy_runtime
     (map (\<lambda>(env, req). Upload env req) [(first_env, note_upload), (second_env, wallet_upload)])
     fresh_server =
     ([Response 201 (UploadBody True note_record), Response 201 (UploadBody True wallet_record)],
      \<lparr>archives = [wallet_record, note_record], disk = DbFile ''[...]'',
       console = [''Failed to save DB:'']\<rparr>) \<and>
   fst (list_files JUndefined
     \<lparr>archives = [wallet_record, note_record], disk = DbFile ''[...]'',
      console = [''Failed to save DB:'']\<rparr>) =
     Response 200 (ItemsBody [wallet_record, note_record])"
  using list_after_uploads [of fresh_server toy_runtime
      "[(first_env, note_upload), (second_env, wallet_upload)]"
      "[Response 201 (UploadBody True note_record), Response 201 (UploadBody True wallet_record)]"
      "\<lparr>archives = [wallet_record, note_record], disk = DbFile ''[...]'',
        console = [''Failed to save DB:'']\<rparr>"]
  by (simp add: note_upload_def wallet_upload_def note_record_def wallet_record_def
      first_env_def second_env_def io_ok_def io_disk_full_def toy_runtime_def fresh_server_def
      nonempty_string_def upload_handler_result saveDb_def saveDb_try_def ensureDataDir_def
      mkdirSync_def writeFileSync_def existsSync_dir_def list_files_def)










section \<open>Properties of the CORS gateway\<close>

lemma set_set_spread: "set (set_spread seen xs) = set xs - set seen"
  by (induction seen xs rule: set_spread.induct) auto

lemma distinct_set_spread: "distinct (set_spread seen xs)"
  by (induction seen xs rule: set_spread.induct) (auto simp: set_set_spread)

lemma distinct_defaultAllowedOrigins: "distinct defaultAllowedOrigins"
  by (simp add: defaultAllowedOrigins_def)

lemma extra_origins_Nil: "extra_origins [] = []"
  by (simp add: extra_origins_def trim_def)

lemma set_allowedOrigins:
  "set (allowedOrigins cfg) = set defaultAllowedOrigins \<union> set (configured_extras cfg)"
  by (auto simp: allowedOrigins_def configured_extras_def set_set_spread extra_origins_Nil
      split: option.splits)

lemma distinct_allowedOrigins: "distinct (allowedOrigins cfg)"
  by (simp add: allowedOrigins_def distinct_set_spread distinct_defaultAllowedOrigins
      split: option.splits)

text \<open>
  C8, as the code has it. The allow-list is the default origins followed by the
  configured extras, without repetition. A request passes the gateway when it has no
  Origin header, when its Origin header is empty, or when its origin is in the
  allow-list; every other request is answered 403 with the body
  \<^verbatim>\<open>{error: "CORS blocked"}\<close>.
\<close>

theorem cors_gateway_decision:
  "cors_gateway (allowedOrigins cfg) origin =
     (case origin of
        None \<Rightarrow> Pass
      | Some v \<Rightarrow>
          if v = [] \<or> v \<in> set defaultAllowedOrigins \<union> set (configured_extras cfg) then Pass
          else Rejected (Response 403 (ErrorBody ''CORS blocked''))) \<and>
   distinct (allowedOrigins cfg) \<and>
   set (allowedOrigins cfg) = set defaultAllowedOrigins \<union> set (configured_extras cfg)"
  using set_allowedOrigins [of cfg] distinct_allowedOrigins [of cfg]
  by (auto simp: cors_gateway_def cors_origin_def error_handler_def split: option.splits)

theorem cors_gateway_decision_witness:
  "cors_gateway (allowedOrigins (Some ''https://a.example , https://zkarchive.us,,'')) None = Pass \<and>
   cors_gateway (allowedOrigins (Some ''https://a.example , https://zkarchive.us,,''))
     (Some ''https://a.example'') = Pass \<and>
   cors_gateway (allowedOrigins (Some ''https://a.example , https://zkarchive.us,,''))
     (Some ''https://evil.example'') = Rejected (Response 403 (ErrorBody ''CORS blocked'')) \<and>
   allowedOrigins (Some ''https://a.example , https://zkarchive.us,,'') =
     defaultAllowedOrigins @ [''https://a.example'']"
  using cors_gateway_decision [of "Some ''https://a.example , https://zkarchive.us,,''" None]
    cors_gateway_decision [of "Some ''https://a.example , https://zkarchive.us,,''"
      "Some ''https://a.example''"]
    cors_gateway_decision [of "Some ''https://a.example , https://zkarchive.us,,''"
      "Some ''https://evil.example''"]
  by (simp add: allowedOrigins_def configured_extras_def extra_origins_def trim_def is_space_def
      defaultAllowedOrigins_def)

text \<open>
  C8 as it is stated fails on a request whose Origin header is present and empty: the
  header's value is not in the allow-list, and the request passes the gateway all the
  same, because the callback tests \<^verbatim>\<open>!origin\<close>.
\<close>

theorem cors_empty_origin_counterexample:
  "cors_gateway (allowedOrigins None) (Some []) = Pass \<and>
   Some [] \<noteq> (None :: string option) \<and>
   [] \<notin> set (allowedOrigins None)"
  by (simp add: cors_gateway_def cors_origin_def allowedOrigins_def defaultAllowedOrigins_def)

end
